theory Spec2Isabelle
  imports Main
begin

section \<open>Operators, output control and mask views\<close>

text \<open>
  The kernels of \<^verbatim>\<open>sparse_vxm.hpp\<close> are templates over the accumulator type, the mask type
  and the semiring. The compile-time branches (\<^verbatim>\<open>if constexpr\<close>) become case distinctions on
  the values below. All scalars of one call share one type \<open>'a\<close>: the conversions between
  the vector scalar type and the semiring's result type are not modelled.
\<close>

datatype OutputControlEnum = MERGE | REPLACE

text \<open>
  Modelled from the spec: the semiring is declared in \<^verbatim>\<open>graphblas/algebra.hpp\<close>, which is
  absent; the kernels use only its additive and its multiplicative combine (section 6).
\<close>

record 'a Semiring =
  add :: "'a \<Rightarrow> 'a \<Rightarrow> 'a"
  mult :: "'a \<Rightarrow> 'a \<Rightarrow> 'a"

text \<open>
  Modelled from the spec: the accumulator types are declared outside the sources; section 6
  describes "a binary combine over (existing, incoming), or an explicit no-accumulate
  sentinel". The kernels branch on \<^verbatim>\<open>std::is_same_v<AccumT, grb::NoAccumulate>\<close>.
\<close>

datatype 'a AccumT = NoAccumulate | Accum "'a \<Rightarrow> 'a \<Rightarrow> 'a"

text \<open>
  Modelled from the spec: calling the \<^verbatim>\<open>NoAccumulate\<close> object as an operator is defined in
  \<^verbatim>\<open>graphblas/algebra.hpp\<close>, which is absent; section 6 calls it the sentinel "signaling
  overwrite-only semantics", so it returns the incoming value.
\<close>

fun accum_apply :: "'a AccumT \<Rightarrow> 'a \<Rightarrow> 'a \<Rightarrow> 'a" where
  "accum_apply NoAccumulate existing incoming = incoming"
| "accum_apply (Accum f) existing incoming = f existing incoming"

text \<open>
  Modelled from the spec: the mask types are declared outside the sources; section 6 lists
  them as "no-mask, direct vector, value-complement, structural view,
  structural-complement view". The overloads of \<^verbatim>\<open>get_inner_mask\<close> (lines 160-187) name
  the wrappers and read the wrapped vector from their member \<^verbatim>\<open>m_vec\<close>.
\<close>

datatype 'v MaskT =
    NoMask
  | Vector 'v
  | VectorComplementView 'v
  | VectorStructureView 'v
  | VectorStructuralComplementView 'v

text \<open>
  \<^verbatim>\<open>get_inner_mask\<close> (lines 160-187): the wrapped vector, or the \<^verbatim>\<open>NoMask\<close> object itself,
  for which \<open>None\<close> stands.
\<close>

fun get_inner_mask :: "'v MaskT \<Rightarrow> 'v option" where
  "get_inner_mask NoMask = None"
| "get_inner_mask (Vector m) = Some m"
| "get_inner_mask (VectorComplementView m) = Some m"
| "get_inner_mask (VectorStructureView m) = Some m"
| "get_inner_mask (VectorStructuralComplementView m) = Some m"

text \<open>
  Modelled from the spec: the type traits \<^verbatim>\<open>is_complement_v\<close>, \<^verbatim>\<open>is_structure_v\<close> and
  \<^verbatim>\<open>is_structural_complement_v\<close> are declared outside the sources; each is true of the
  wrapper it names (section 3: a mask carries the two flags "structure-only" and
  "complement").
\<close>

fun is_complement_v :: "'v MaskT \<Rightarrow> bool" where
  "is_complement_v (VectorComplementView m) = True"
| "is_complement_v m = False"

fun is_structure_v :: "'v MaskT \<Rightarrow> bool" where
  "is_structure_v (VectorStructureView m) = True"
| "is_structure_v m = False"

fun is_structural_complement_v :: "'v MaskT \<Rightarrow> bool" where
  "is_structural_complement_v (VectorStructuralComplementView m) = True"
| "is_structural_complement_v m = False"

text \<open>The two constants \<^verbatim>\<open>comp\<close> and \<^verbatim>\<open>strc\<close> of the dense kernel (lines 222-223).\<close>

definition mask_comp :: "'v MaskT \<Rightarrow> bool" where
  "mask_comp msk = (is_complement_v msk \<or> is_structural_complement_v msk)"

definition mask_strc :: "'v MaskT \<Rightarrow> bool" where
  "mask_strc msk = (is_structure_v msk \<or> is_structural_complement_v msk)"

section \<open>Storage: the matrix and the dense vector\<close>

subsection \<open>Row-sparse matrix\<close>

text \<open>
  Modelled from the spec: \<^verbatim>\<open>GKCMatrix\<close> is not among the sources. Section 3 describes it as
  an array of rows, each an ordered sequence of (column, value) pairs, with \<^verbatim>\<open>nvals()\<close> the
  sum of the row cardinalities. The kernels walk \<^verbatim>\<open>idxBegin(i) .. idxEnd(i)\<close> and
  \<^verbatim>\<open>wgtBegin(i)\<close> in step, which is the list of pairs of row \<open>i\<close>. Reading a row outside the
  matrix is undefined in the source (section 4.1); the model reads an empty row there.
\<close>

type_synonym 'a GKCMatrix = "(nat \<times> 'a) list list"

definition nvals_matrix :: "'a GKCMatrix \<Rightarrow> nat" where
  "nvals_matrix A = sum_list (map length A)"

definition matrix_row :: "'a GKCMatrix \<Rightarrow> nat \<Rightarrow> (nat \<times> 'a) list" where
  "matrix_row A i = (if i < length A then A ! i else [])"

subsection \<open>Dense vector\<close>

text \<open>
  Modelled from the spec: \<^verbatim>\<open>GKCDenseVector\<close> is not among the sources. Sections 3 and 4.2
  describe a fixed-size array of slots, each marked present or absent: a list of options.
  An index outside the vector is a precondition violation in the source (section 7); the
  model reads "absent" there and a write there changes nothing.
\<close>

type_synonym 'a GKCDenseVector = "'a option list"

text \<open>
  Modelled from the spec: \<^verbatim>\<open>boolExtractElement(i, val)\<close> tells whether slot \<open>i\<close> is present
  and, if so, writes its value to \<^verbatim>\<open>val\<close>; \<^verbatim>\<open>hasElement(i)\<close> tells the first only. The
  kernel reads \<^verbatim>\<open>v[i]\<close> only under \<^verbatim>\<open>hasElement(i)\<close>, so one lookup models both.
\<close>

definition boolExtractElement_dense :: "'a GKCDenseVector \<Rightarrow> nat \<Rightarrow> 'a option" where
  "boolExtractElement_dense v i = (if i < length v then v ! i else None)"

definition hasElement_dense :: "'a GKCDenseVector \<Rightarrow> nat \<Rightarrow> bool" where
  "hasElement_dense v i = (boolExtractElement_dense v i \<noteq> None)"

text \<open>
  Modelled from the spec: \<^verbatim>\<open>setElement\<close> overwrites and marks present, \<^verbatim>\<open>boolRemoveElement\<close>
  marks absent, \<^verbatim>\<open>clear\<close> marks every slot absent (section 4.2).
\<close>

definition setElement_dense :: "nat \<Rightarrow> 'a \<Rightarrow> 'a GKCDenseVector \<Rightarrow> 'a GKCDenseVector" where
  "setElement_dense i x v = v[i := Some x]"

definition boolRemoveElement_dense :: "nat \<Rightarrow> 'a GKCDenseVector \<Rightarrow> 'a GKCDenseVector" where
  "boolRemoveElement_dense i v = v[i := None]"

definition clear_dense :: "'a GKCDenseVector \<Rightarrow> 'a GKCDenseVector" where
  "clear_dense v = replicate (length v) None"

text \<open>
  Modelled from the spec: \<^verbatim>\<open>mergeSetElement(i, x, op)\<close>, "if absent, set; if present,
  replace with op(existing, x)" (section 4.2); \<^verbatim>\<open>nvals()\<close> counts the present slots.
\<close>

definition mergeSetElement_dense ::
  "nat \<Rightarrow> 'a \<Rightarrow> ('a \<Rightarrow> 'a \<Rightarrow> 'a) \<Rightarrow> 'a GKCDenseVector \<Rightarrow> 'a GKCDenseVector" where
  "mergeSetElement_dense i x f v =
     (case boolExtractElement_dense v i of
        None \<Rightarrow> setElement_dense i x v
      | Some existing \<Rightarrow> setElement_dense i (f existing x) v)"

definition nvals_dense :: "'a GKCDenseVector \<Rightarrow> nat" where
  "nvals_dense v = length (filter (\<lambda>s. s \<noteq> None) v)"

section \<open>The dense kernel: \<^verbatim>\<open>vxm\<close> on \<^verbatim>\<open>GKCDenseVector\<close> (lines 205-412)\<close>

text \<open>
  The mask test of lines 310 and 382:
  \<^verbatim>\<open>comp ^ (mask_vec.boolExtractElement(i, val) && (strc || val))\<close>.
  The stored mask value is converted to \<^verbatim>\<open>bool\<close> there, so mask vectors hold booleans.
\<close>

definition mask_test :: "bool \<Rightarrow> bool \<Rightarrow> bool GKCDenseVector \<Rightarrow> nat \<Rightarrow> bool" where
  "mask_test cmp str mask_vec i =
     (cmp \<noteq> (case boolExtractElement_dense mask_vec i of
                 None \<Rightarrow> False
               | Some val \<Rightarrow> str \<or> val))"

text \<open>
  The flag \<^verbatim>\<open>remove\<close> of lines 250-264. Without \<^verbatim>\<open>strc\<close> it is
  \<^verbatim>\<open>!boolExtractElement(idx, val)\<close>, then or-ed with \<^verbatim>\<open>!val\<close>; with \<^verbatim>\<open>strc\<close> it is
  \<^verbatim>\<open>!hasElement(idx)\<close>; \<^verbatim>\<open>comp\<close> negates it.
\<close>

definition remove_flag :: "bool \<Rightarrow> bool \<Rightarrow> bool GKCDenseVector \<Rightarrow> nat \<Rightarrow> bool" where
  "remove_flag cmp str mask_vec idx =
     (let remove =
        (if \<not> str
         then (case boolExtractElement_dense mask_vec idx of
                 None \<Rightarrow> True
               | Some val \<Rightarrow> \<not> val)
         else \<not> hasElement_dense mask_vec idx)
      in if cmp then \<not> remove else remove)"

text \<open>Lines 248-269: the loop that removes the entries of \<open>w\<close> outside the mask.\<close>

definition remove_outside_mask ::
  "bool \<Rightarrow> bool \<Rightarrow> bool GKCDenseVector \<Rightarrow> 'a GKCDenseVector \<Rightarrow> 'a GKCDenseVector" where
  "remove_outside_mask cmp str mask_vec w =
     foldl (\<lambda>w' idx. if remove_flag cmp str mask_vec idx
                      then boolRemoveElement_dense idx w' else w')
           w [0..<length w]"

text \<open>Lines 228-272: what happens to \<open>w\<close> before the product is computed.\<close>

definition prepare_dense ::
  "'a GKCDenseVector \<Rightarrow> bool GKCDenseVector MaskT \<Rightarrow> 'a AccumT \<Rightarrow> OutputControlEnum
   \<Rightarrow> 'a GKCDenseVector" where
  "prepare_dense w msk accum outp =
     (case accum of
        NoAccumulate \<Rightarrow>
          (case get_inner_mask msk of
             None \<Rightarrow> clear_dense w
           | Some mask_vec \<Rightarrow> if outp = REPLACE then clear_dense w else w)
      | Accum f \<Rightarrow>
          (case get_inner_mask msk of
             None \<Rightarrow> w
           | Some mask_vec \<Rightarrow>
               if outp = REPLACE
               then remove_outside_mask (mask_comp msk) (mask_strc msk) mask_vec w
               else w))"

text \<open>
  Lines 289-343: one entry \<open>(col, wgt)\<close> of row \<open>idx\<close> of \<open>A\<close>, scaled by \<open>uw = u[idx]\<close>, is
  added into the temporary \<open>t\<close>. Note the operand order \<^verbatim>\<open>op.mult(*awitr, uw)\<close>.
\<close>

definition scatter_entry_dense ::
  "bool GKCDenseVector MaskT \<Rightarrow> 'a Semiring \<Rightarrow> 'a \<Rightarrow> 'a GKCDenseVector \<Rightarrow> nat \<times> 'a
   \<Rightarrow> 'a GKCDenseVector" where
  "scatter_entry_dense msk op uw t e =
     (case e of (col, wgt) \<Rightarrow>
        (case get_inner_mask msk of
           None \<Rightarrow>
             (case boolExtractElement_dense t col of
                Some tv \<Rightarrow> setElement_dense col (add op tv (mult op wgt uw)) t
              | None \<Rightarrow> setElement_dense col (mult op wgt uw) t)
         | Some mask_vec \<Rightarrow>
             if mask_test (mask_comp msk) (mask_strc msk) mask_vec col
             then (case boolExtractElement_dense t col of
                     Some tv \<Rightarrow> setElement_dense col (add op tv (mult op wgt uw)) t
                   | None \<Rightarrow> setElement_dense col (mult op wgt uw) t)
             else t))"

text \<open>
  Lines 278-346: the loop over the slots of \<open>u\<close>, and inside it over row \<open>idx\<close> of \<open>A\<close>.
  The OpenMP pragmas are not modelled: the loops run in index order.
\<close>

definition scatter_dense ::
  "bool GKCDenseVector MaskT \<Rightarrow> 'a Semiring \<Rightarrow> 'a GKCDenseVector \<Rightarrow> 'a GKCMatrix
   \<Rightarrow> 'a GKCDenseVector \<Rightarrow> 'a GKCDenseVector" where
  "scatter_dense msk op u A t0 =
     foldl (\<lambda>t idx.
              case boolExtractElement_dense u idx of
                None \<Rightarrow> t
              | Some uw \<Rightarrow> foldl (scatter_entry_dense msk op uw) t (matrix_row A idx))
           t0 [0..<length u]"

text \<open>Lines 378-409: one round of the merge loop when there is a mask.\<close>

definition merge_step_masked ::
  "bool \<Rightarrow> bool \<Rightarrow> bool GKCDenseVector \<Rightarrow> 'a AccumT \<Rightarrow> OutputControlEnum \<Rightarrow> 'a GKCDenseVector
   \<Rightarrow> 'a GKCDenseVector \<Rightarrow> nat \<Rightarrow> 'a GKCDenseVector" where
  "merge_step_masked cmp str mask_vec accum outp t w idx =
     (if mask_test cmp str mask_vec idx
      then (case accum of
              Accum f \<Rightarrow>
                (case boolExtractElement_dense t idx of
                   Some tv \<Rightarrow> mergeSetElement_dense idx tv f w
                 | None \<Rightarrow> w)
            | NoAccumulate \<Rightarrow>
                (case boolExtractElement_dense t idx of
                   Some tv \<Rightarrow> setElement_dense idx tv w
                 | None \<Rightarrow> boolRemoveElement_dense idx w))
      else if outp = REPLACE then boolRemoveElement_dense idx w
      else w)"

text \<open>
  Lines 350-410: the merge loop. Without a mask and with an accumulator (lines 357-369) the
  first round assigns \<open>t\<close> to \<open>w\<close> and leaves the loop; the loop has no round when \<open>w\<close> has
  size 0. Without a mask and without an accumulator (lines 370-376) each present slot of
  \<open>t\<close> goes through \<^verbatim>\<open>mergeSetElement\<close> with the \<^verbatim>\<open>NoAccumulate\<close> object.
\<close>

definition merge_dense ::
  "bool GKCDenseVector MaskT \<Rightarrow> 'a AccumT \<Rightarrow> OutputControlEnum \<Rightarrow> 'a GKCDenseVector
   \<Rightarrow> 'a GKCDenseVector \<Rightarrow> 'a GKCDenseVector" where
  "merge_dense msk accum outp t w =
     (case get_inner_mask msk of
        None \<Rightarrow>
          (case accum of
             Accum f \<Rightarrow> if length w = 0 then w else t
           | NoAccumulate \<Rightarrow>
               foldl (\<lambda>w' idx.
                        case boolExtractElement_dense t idx of
                          Some tv \<Rightarrow> mergeSetElement_dense idx tv (accum_apply NoAccumulate) w'
                        | None \<Rightarrow> w')
                     w [0..<length w])
      | Some mask_vec \<Rightarrow>
          foldl (merge_step_masked (mask_comp msk) (mask_strc msk) mask_vec accum outp t)
                w [0..<length w])"

text \<open>
  What one round of the masked merge loop does to slot \<open>idx\<close>, given the slot's old
  content: the statement of the loop body slot by slot, used to state the results below.
\<close>

definition merge_slot ::
  "bool \<Rightarrow> bool \<Rightarrow> bool GKCDenseVector \<Rightarrow> 'a AccumT \<Rightarrow> OutputControlEnum \<Rightarrow> 'a GKCDenseVector
   \<Rightarrow> nat \<Rightarrow> 'a option \<Rightarrow> 'a option" where
  "merge_slot cmp str mask_vec accum outp t idx old =
     (if mask_test cmp str mask_vec idx
      then (case accum of
              Accum f \<Rightarrow>
                (case boolExtractElement_dense t idx of
                   Some tv \<Rightarrow> Some (case old of None \<Rightarrow> tv | Some existing \<Rightarrow> f existing tv)
                 | None \<Rightarrow> old)
            | NoAccumulate \<Rightarrow> boolExtractElement_dense t idx)
      else if outp = REPLACE then None
      else old)"

text \<open>The whole function: everything is inside the test of line 225.\<close>

definition vxm_dense ::
  "'a GKCDenseVector \<Rightarrow> bool GKCDenseVector MaskT \<Rightarrow> 'a AccumT \<Rightarrow> 'a Semiring
   \<Rightarrow> 'a GKCDenseVector \<Rightarrow> 'a GKCMatrix \<Rightarrow> OutputControlEnum \<Rightarrow> 'a GKCDenseVector" where
  "vxm_dense w msk accum op u A outp =
     (if nvals_matrix A > 0 \<and> nvals_dense u > 0
      then
        (let w1 = prepare_dense w msk accum outp;
             t = scatter_dense msk op u A (replicate (length w1) None)
         in merge_dense msk accum outp t w1)
      else w)"

section \<open>Storage: the sparse vector\<close>

text \<open>
  Modelled from the spec: \<^verbatim>\<open>GKCSparseVector\<close> is not among the sources. Sections 3 and 4.2
  describe two parallel sequences, the indices and their values, and an "unsorted" flag.
  The model keeps the pairs in storage order. A new index is appended; appending below the
  last stored index sets the flag ("preserve sortedness when inserting in-order, or set the
  unsorted flag"). The kernel walks \<^verbatim>\<open>idxBegin() .. idxEnd()\<close> and \<^verbatim>\<open>wgtBegin()\<close> in step:
  the list of pairs, read in storage order whatever the flag says.
\<close>

record 'a GKCSparseVector =
  sv_size :: nat
  sv_entries :: "(nat \<times> 'a) list"
  sv_unsorted :: bool

text \<open>
  Modelled from the spec: the operations of the sparse vector, "the same logical
  operations" as the dense vector's (section 4.2), on the stored pairs.
\<close>

definition lookup_sparse :: "'a GKCSparseVector \<Rightarrow> nat \<Rightarrow> 'a option" where
  "lookup_sparse v i = map_of (sv_entries v) i"

definition nvals_sparse :: "'a GKCSparseVector \<Rightarrow> nat" where
  "nvals_sparse v = length (sv_entries v)"

definition append_sparse :: "nat \<Rightarrow> 'a \<Rightarrow> 'a GKCSparseVector \<Rightarrow> 'a GKCSparseVector" where
  "append_sparse i x v =
     v\<lparr>sv_entries := sv_entries v @ [(i, x)],
       sv_unsorted := (sv_unsorted v \<or> (sv_entries v \<noteq> [] \<and> i < fst (last (sv_entries v))))\<rparr>"

definition replace_sparse :: "nat \<Rightarrow> 'a \<Rightarrow> 'a GKCSparseVector \<Rightarrow> 'a GKCSparseVector" where
  "replace_sparse i x v =
     v\<lparr>sv_entries := map (\<lambda>e. if fst e = i then (i, x) else e) (sv_entries v)\<rparr>"

definition setElement_sparse :: "nat \<Rightarrow> 'a \<Rightarrow> 'a GKCSparseVector \<Rightarrow> 'a GKCSparseVector" where
  "setElement_sparse i x v =
     (case lookup_sparse v i of
        None \<Rightarrow> append_sparse i x v
      | Some existing \<Rightarrow> replace_sparse i x v)"

definition mergeSetElement_sparse ::
  "nat \<Rightarrow> 'a \<Rightarrow> ('a \<Rightarrow> 'a \<Rightarrow> 'a) \<Rightarrow> 'a GKCSparseVector \<Rightarrow> 'a GKCSparseVector" where
  "mergeSetElement_sparse i x f v =
     (case lookup_sparse v i of
        None \<Rightarrow> append_sparse i x v
      | Some existing \<Rightarrow> replace_sparse i (f existing x) v)"

definition boolRemoveElement_sparse :: "nat \<Rightarrow> 'a GKCSparseVector \<Rightarrow> 'a GKCSparseVector" where
  "boolRemoveElement_sparse i v = v\<lparr>sv_entries := filter (\<lambda>e. fst e \<noteq> i) (sv_entries v)\<rparr>"

definition clear_sparse :: "'a GKCSparseVector \<Rightarrow> 'a GKCSparseVector" where
  "clear_sparse v = v\<lparr>sv_entries := []\<rparr>"

definition setUnsorted :: "'a GKCSparseVector \<Rightarrow> 'a GKCSparseVector" where
  "setUnsorted v = v\<lparr>sv_unsorted := True\<rparr>"

text \<open>
  Modelled from the spec: a vector constructed with a size (line 459) has no entries and
  its flag is not set.
\<close>

definition new_sparse :: "nat \<Rightarrow> 'a GKCSparseVector" where
  "new_sparse n = \<lparr>sv_size = n, sv_entries = [], sv_unsorted = False\<rparr>"

section \<open>The sparse kernel: \<^verbatim>\<open>vxm\<close> on \<^verbatim>\<open>GKCSparseVector\<close> (lines 444-577)\<close>

text \<open>
  The kernel reads its mask only through \<^verbatim>\<open>size()\<close>, \<^verbatim>\<open>idxBegin()\<close> and \<^verbatim>\<open>idxEnd()\<close>, the
  members of a sparse vector, and never through \<^verbatim>\<open>get_inner_mask\<close>. The model's mask is
  \<open>None\<close> for \<^verbatim>\<open>grb::NoMask\<close> or a sparse vector, of any scalar type \<open>'m\<close>.

  Lines 462-470: the mask is made dense, one flag per index, set where the mask stores an
  entry. A stored index outside the mask's size is undefined in the source; the model
  leaves the flags unchanged there.
\<close>

definition densify_mask :: "'m GKCSparseVector \<Rightarrow> bool list" where
  "densify_mask m =
     foldl (\<lambda>mask_vec i. mask_vec[i := True])
           (replicate (sv_size m) False) (map fst (sv_entries m))"

definition mask_vec_of :: "'m GKCSparseVector option \<Rightarrow> bool list" where
  "mask_vec_of msk = (case msk of None \<Rightarrow> [] | Some m \<Rightarrow> densify_mask m)"

text \<open>
  Line 521: \<^verbatim>\<open>std::is_same_v<MaskT, grb::NoMask> || mask_vec[*AIst] != 0\<close>. Reading
  \<^verbatim>\<open>mask_vec\<close> past its size is undefined in the source; the model reads "not set".
\<close>

definition mask_allows :: "'m GKCSparseVector option \<Rightarrow> bool list \<Rightarrow> nat \<Rightarrow> bool" where
  "mask_allows msk mask_vec i =
     (case msk of None \<Rightarrow> True | Some m \<Rightarrow> i < length mask_vec \<and> mask_vec ! i)"

text \<open>Lines 472-502: what happens to \<open>w\<close> before the product is computed.\<close>

definition prepare_sparse ::
  "'a GKCSparseVector \<Rightarrow> 'm GKCSparseVector option \<Rightarrow> 'a AccumT \<Rightarrow> OutputControlEnum
   \<Rightarrow> 'a GKCSparseVector" where
  "prepare_sparse w msk accum outp =
     (case accum of
        NoAccumulate \<Rightarrow>
          (case msk of
             None \<Rightarrow> clear_sparse w
           | Some m \<Rightarrow> if outp = REPLACE then clear_sparse w else w)
      | Accum f \<Rightarrow>
          (case msk of
             None \<Rightarrow> w
           | Some m \<Rightarrow>
               if outp = REPLACE
               then foldl (\<lambda>w' idx. if \<not> (mask_vec_of msk ! idx)
                                    then boolRemoveElement_sparse idx w' else w')
                          w [0..<length (mask_vec_of msk)]
               else w))"

text \<open>Lines 515-534: the product, with the operand order \<^verbatim>\<open>op.mult(*UWst, *AWst)\<close>.\<close>

definition scatter_entry_sparse ::
  "'m GKCSparseVector option \<Rightarrow> 'a Semiring \<Rightarrow> 'a \<Rightarrow> 'a GKCSparseVector \<Rightarrow> nat \<times> 'a
   \<Rightarrow> 'a GKCSparseVector" where
  "scatter_entry_sparse msk op uw t e =
     (case e of (col, aw) \<Rightarrow>
        if mask_allows msk (mask_vec_of msk) col
        then mergeSetElement_sparse col (mult op uw aw) (add op) t
        else t)"

definition scatter_sparse ::
  "'m GKCSparseVector option \<Rightarrow> 'a Semiring \<Rightarrow> 'a GKCSparseVector \<Rightarrow> 'a GKCMatrix
   \<Rightarrow> 'a GKCSparseVector \<Rightarrow> 'a GKCSparseVector" where
  "scatter_sparse msk op u A t0 =
     foldl (\<lambda>t ue. case ue of (ui, uw) \<Rightarrow>
                      foldl (scatter_entry_sparse msk op uw) t (matrix_row A ui))
           t0 (sv_entries u)"

text \<open>
  The invariant of the temporary during the product: no index is stored twice, and every
  stored index passed the test of line 521.
\<close>

definition temp_ok :: "'m GKCSparseVector option \<Rightarrow> 'a GKCSparseVector \<Rightarrow> bool" where
  "temp_ok msk t =
     (distinct (map fst (sv_entries t)) \<and>
      list_all (mask_allows msk (mask_vec_of msk)) (map fst (sv_entries t)))"

text \<open>Lines 536-574: the entries of \<open>t\<close> go into \<open>w\<close>.\<close>

definition merge_sparse ::
  "'a AccumT \<Rightarrow> OutputControlEnum \<Rightarrow> 'a GKCSparseVector \<Rightarrow> 'a GKCSparseVector
   \<Rightarrow> 'a GKCSparseVector" where
  "merge_sparse accum outp t w =
     (case accum of
        Accum f \<Rightarrow>
          foldl (\<lambda>w' te. case te of (i, x) \<Rightarrow> mergeSetElement_sparse i x f w') w (sv_entries t)
      | NoAccumulate \<Rightarrow>
          if outp = REPLACE then t
          else foldl (\<lambda>w' te. case te of (i, x) \<Rightarrow> setElement_sparse i x w') w (sv_entries t))"

text \<open>The whole function; \<^verbatim>\<open>w.setUnsorted()\<close> of line 576 is its last statement.\<close>

definition vxm_sparse ::
  "'a GKCSparseVector \<Rightarrow> 'm GKCSparseVector option \<Rightarrow> 'a AccumT \<Rightarrow> 'a Semiring
   \<Rightarrow> 'a GKCSparseVector \<Rightarrow> 'a GKCMatrix \<Rightarrow> OutputControlEnum \<Rightarrow> 'a GKCSparseVector" where
  "vxm_sparse w msk accum op u A outp =
     (let w1 = prepare_sparse w msk accum outp;
          w2 = (if nvals_matrix A > 0 \<and> nvals_sparse u > 0
                then merge_sparse accum outp
                       (scatter_sparse msk op u A (new_sparse (sv_size w))) w1
                else w1)
      in setUnsorted w2)"

section \<open>The mask test in the spec's words\<close>

text \<open>
  Section 4.3, to be compared with the tests the kernels make:
  "passes = complement XOR (present(i) AND (structure-only OR storedValue(i) is truthy))".
  The third argument is what the mask vector stores at the index, if anything.
\<close>

definition passes_spec :: "bool \<Rightarrow> bool \<Rightarrow> bool option \<Rightarrow> bool" where
  "passes_spec complement structure_only stored =
     (complement \<noteq> (stored \<noteq> None \<and> (structure_only \<or> stored = Some True)))"

section \<open>The adjacency-list iterator (\<^verbatim>\<open>LilSparseMatrixIterator.hpp\<close>)\<close>

text \<open>
  The matrix \<^verbatim>\<open>M\<close> is a range of rows, each row a range of (column, value) pairs.
  \<^verbatim>\<open>inner_iterator\<close> is the iterator type of one row. The model names such an iterator by
  the row it points into and its offset there: \<^verbatim>\<open>begin()\<close> of row \<open>r\<close> is offset 0, its
  \<^verbatim>\<open>end()\<close> is the row's length. Two inner iterators are equal when both agree; iterators
  into different rows are different.
\<close>

type_synonym 'a adjacency_list = "(nat \<times> 'a) list list"

datatype inner_iterator = InnerIt nat nat

text \<open>The members \<^verbatim>\<open>row_\<close> and \<^verbatim>\<open>col_\<close>; \<^verbatim>\<open>matrix_ptr_\<close> is the argument \<open>M\<close> of each function.\<close>

record accessor =
  acc_row :: nat
  acc_col :: inner_iterator

text \<open>
  What is undefined in the source is an error of the model: indexing \<^verbatim>\<open>matrix_()[row_]\<close>
  outside the matrix, and incrementing or dereferencing an inner iterator that is not at
  an element of the row it points into.
\<close>

datatype iter_error = RowOutOfRange | NotDereferenceable

definition row_begin :: "nat \<Rightarrow> inner_iterator" where
  "row_begin r = InnerIt r 0"

definition row_end :: "'a adjacency_list \<Rightarrow> nat \<Rightarrow> inner_iterator" where
  "row_end M r = InnerIt r (length (M ! r))"

text \<open>
  \<^verbatim>\<open>fast_forward\<close> (lines 64-71). The loop test reads \<^verbatim>\<open>matrix_()[row_]\<close> first, so a row
  index outside the matrix fails before \<^verbatim>\<open>matrix_().size()-1\<close> is computed; where that
  difference is computed the matrix has a row, so the unsigned subtraction does not wrap.
\<close>

function fast_forward :: "'a adjacency_list \<Rightarrow> accessor \<Rightarrow> iter_error + accessor" where
  "fast_forward M a =
     (if length M \<le> acc_row a then Inl RowOutOfRange
      else if acc_col a = row_end M (acc_row a) \<and> acc_row a < length M - 1
      then fast_forward M
             (a\<lparr>acc_row := Suc (acc_row a),
                acc_col := (if Suc (acc_row a) \<noteq> length M - 1
                            then row_begin (Suc (acc_row a)) else acc_col a)\<rparr>)
      else Inr a)"
  by pat_completeness auto
termination
  by (relation "measure (\<lambda>(M, a). length M - acc_row a)") auto

definition dereferenceable :: "'a adjacency_list \<Rightarrow> inner_iterator \<Rightarrow> bool" where
  "dereferenceable M it = (case it of InnerIt r k \<Rightarrow> r < length M \<and> k < length (M ! r))"

definition next_inner :: "inner_iterator \<Rightarrow> inner_iterator" where
  "next_inner it = (case it of InnerIt r k \<Rightarrow> InnerIt r (Suc k))"

text \<open>The constructor (lines 49-52).\<close>

definition adjacency_list_view_accessor ::
  "'a adjacency_list \<Rightarrow> nat \<Rightarrow> inner_iterator \<Rightarrow> iter_error + accessor" where
  "adjacency_list_view_accessor M row col = fast_forward M \<lparr>acc_row = row, acc_col = col\<rparr>"

text \<open>\<^verbatim>\<open>operator++\<close> (lines 58-62).\<close>

definition increment :: "'a adjacency_list \<Rightarrow> accessor \<Rightarrow> iter_error + accessor" where
  "increment M a =
     (if dereferenceable M (acc_col a)
      then fast_forward M (a\<lparr>acc_col := next_inner (acc_col a)\<rparr>)
      else Inl NotDereferenceable)"

text \<open>
  \<^verbatim>\<open>operator*\<close> (lines 73-76): the pair under \<^verbatim>\<open>col_\<close>, in whichever row \<^verbatim>\<open>col_\<close> points
  into, keyed with \<^verbatim>\<open>row_\<close>.
\<close>

definition dereference :: "'a adjacency_list \<Rightarrow> accessor \<Rightarrow> iter_error + (nat \<times> nat \<times> 'a)" where
  "dereference M a =
     (case acc_col a of InnerIt r k \<Rightarrow>
        if r < length M \<and> k < length (M ! r)
        then (case M ! r ! k of (j, v) \<Rightarrow> Inr (acc_row a, j, v))
        else Inl NotDereferenceable)"

text \<open>
  Modelled from the spec: the view that constructs the first and the end iterator is not
  among the sources. Section 4.4: the traversal starts at row 0, and the end iterator is
  "constructed as (lastRow, lastRow's end-of-range)".
\<close>

definition begin_iterator :: "'a adjacency_list \<Rightarrow> iter_error + accessor" where
  "begin_iterator M = adjacency_list_view_accessor M 0 (row_begin 0)"

definition end_iterator :: "'a adjacency_list \<Rightarrow> iter_error + accessor" where
  "end_iterator M =
     (if M = [] then Inl RowOutOfRange
      else adjacency_list_view_accessor M (length M - 1) (row_end M (length M - 1)))"

text \<open>The intra-row position is a dereferenceable position of the current row.\<close>

definition in_current_row :: "'a adjacency_list \<Rightarrow> accessor \<Rightarrow> bool" where
  "in_current_row M a =
     (case acc_col a of InnerIt r k \<Rightarrow> r = acc_row a \<and> r < length M \<and> k < length (M ! r))"

subsection \<open>A full traversal\<close>

text \<open>
  The range-based loop: until the iterator equals the end iterator (\<^verbatim>\<open>operator==\<close>, lines
  54-56: both members equal), dereference and increment. The result is the list of the
  entries yielded and, if the loop ran into an error, that error. The measure below
  counts the positions from \<^verbatim>\<open>col_\<close> to the end of the matrix; it shows that the loop stops.
\<close>

definition remaining :: "'a adjacency_list \<Rightarrow> inner_iterator \<Rightarrow> nat" where
  "remaining M it =
     (case it of InnerIt r k \<Rightarrow> sum_list (map (\<lambda>row. Suc (length row)) (drop r M)) - k)"

lemma fast_forward_col:
  "fast_forward M a = Inr a' \<Longrightarrow>
     acc_col a' = acc_col a \<or>
     (\<exists>r'. r' < length M \<and> acc_col a' = InnerIt r' 0 \<and>
            acc_col a = row_end M (acc_row a) \<and> acc_row a < r')"
proof (induction M a rule: fast_forward.induct)
  case (1 M a)
  show ?case
  proof (cases "\<not> length M \<le> acc_row a \<and> acc_col a = row_end M (acc_row a)
                \<and> acc_row a < length M - 1")
    case False
    with "1.prems" show ?thesis by (auto split: if_splits)
  next
    case True
    let ?a1 = "a\<lparr>acc_row := Suc (acc_row a),
                acc_col := (if Suc (acc_row a) \<noteq> length M - 1
                            then row_begin (Suc (acc_row a)) else acc_col a)\<rparr>"
    from True "1.prems" have ff: "fast_forward M ?a1 = Inr a'" by simp
    from True have c1: "\<not> length M \<le> acc_row a"
      and c2: "acc_col a = row_end M (acc_row a) \<and> acc_row a < length M - 1" by auto
    from "1.IH"[OF c1 c2 ff]
    show ?thesis using True by (auto simp: row_begin_def row_end_def split: if_splits)
  qed
qed

lemma remaining_next:
  assumes "r < length M" "k < length (M ! r)"
  shows "remaining M (InnerIt r (Suc k)) < remaining M (InnerIt r k)"
proof -
  have "drop r M = M ! r # drop (Suc r) M" using assms(1) by (simp add: Cons_nth_drop_Suc)
  then show ?thesis using assms(2) by (simp add: remaining_def)
qed

lemma sum_list_drop_le:
  "sum_list (map f (drop n xs)) \<le> sum_list (map (f :: 'b \<Rightarrow> nat) xs)"
proof -
  have "sum_list (map f xs) = sum_list (map f (take n xs)) + sum_list (map f (drop n xs))"
    by (metis append_take_drop_id map_append sum_list.append)
  then show ?thesis by simp
qed

lemma remaining_later_row:
  assumes "r < r'" "r < length M" "k < length (M ! r)"
  shows "remaining M (InnerIt r' 0) < remaining M (InnerIt r k)"
proof -
  have d: "drop r M = M ! r # drop (Suc r) M" using assms(2) by (simp add: Cons_nth_drop_Suc)
  have "drop r' M = drop (r' - Suc r) (drop (Suc r) M)" using assms(1) by simp
  then have "sum_list (map (\<lambda>row. Suc (length row)) (drop r' M))
          \<le> sum_list (map (\<lambda>row. Suc (length row)) (drop (Suc r) M))"
    using sum_list_drop_le[of "\<lambda>row. Suc (length row)" "r' - Suc r" "drop (Suc r) M"] by simp
  then show ?thesis using assms(3) by (simp add: remaining_def d)
qed

lemma increment_decreases:
  assumes "dereference M a = Inr x" "increment M a = Inr a'"
  shows "remaining M (acc_col a') < remaining M (acc_col a)"
proof -
  obtain r k where col: "acc_col a = InnerIt r k" by (cases "acc_col a")
  from assms(1) col have v: "r < length M" "k < length (M ! r)"
    by (auto simp: dereference_def split: if_splits)
  let ?a1 = "a\<lparr>acc_col := InnerIt r (Suc k)\<rparr>"
  from assms(2) col v have ff: "fast_forward M ?a1 = Inr a'"
    by (simp add: increment_def dereferenceable_def next_inner_def)
  from fast_forward_col[OF ff]
  show ?thesis
  proof
    assume "acc_col a' = acc_col ?a1"
    then show ?thesis using col remaining_next[OF v] by simp
  next
    assume "\<exists>r'. r' < length M \<and> acc_col a' = InnerIt r' 0 \<and>
                 acc_col ?a1 = row_end M (acc_row ?a1) \<and> acc_row ?a1 < r'"
    then obtain r' where r': "acc_col a' = InnerIt r' 0"
        "InnerIt r (Suc k) = row_end M (acc_row a)" "acc_row a < r'"
      by auto
    from r'(2) have "acc_row a = r" by (simp add: row_end_def)
    with r'(3) have "r < r'" by simp
    from remaining_later_row[OF this v] show ?thesis using col r'(1) by simp
  qed
qed

function traverse ::
  "'a adjacency_list \<Rightarrow> accessor \<Rightarrow> accessor
   \<Rightarrow> (nat \<times> nat \<times> 'a) list \<times> iter_error option" where
  "traverse M it sentinel =
     (if it = sentinel then ([], None)
      else (case dereference M it of
              Inl err \<Rightarrow> ([], Some err)
            | Inr x \<Rightarrow>
                (case increment M it of
                   Inl err \<Rightarrow> ([x], Some err)
                 | Inr it' \<Rightarrow> (case traverse M it' sentinel of (xs, r) \<Rightarrow> (x # xs, r)))))"
  by pat_completeness auto
termination
  by (relation "measure (\<lambda>(M, it, sentinel). remaining M (acc_col it))")
     (auto intro: increment_decreases)

text \<open>From the first iterator to the end iterator.\<close>

definition traverse_all ::
  "'a adjacency_list \<Rightarrow> (nat \<times> nat \<times> 'a) list \<times> iter_error option" where
  "traverse_all M =
     (case begin_iterator M of
        Inl err \<Rightarrow> ([], Some err)
      | Inr first \<Rightarrow>
          (case end_iterator M of
             Inl err \<Rightarrow> ([], Some err)
           | Inr sentinel \<Rightarrow> traverse M first sentinel))"

section \<open>The arithmetic semiring\<close>

text \<open>
  Modelled from the spec: the arithmetic semiring of the concrete scenario of section 8,
  "semiring = (add, multiply)", over the integers.
\<close>

definition ArithmeticSemiring :: "int Semiring" where
  "ArithmeticSemiring = \<lparr>add = (+), mult = (*)\<rparr>"

section \<open>Results\<close>

subsection \<open>The dense kernel, slot by slot\<close>

lemma foldl_upt_length:
  assumes "\<And>v idx. length (step v idx) = length v"
  shows "length (foldl step w [0..<n]) = length w"
  by (induction n) (simp_all add: assms)

text \<open>
  A loop over the indices whose round \<open>idx\<close> touches slot \<open>idx\<close> only, and there as a
  function \<open>g\<close> of the slot's content, applies \<open>g\<close> to each slot it reaches.
\<close>

lemma foldl_upt_slot:
  assumes len: "\<And>v idx. length (step v idx) = length v"
    and other: "\<And>v idx j. j \<noteq> idx \<Longrightarrow> step v idx ! j = v ! j"
    and self: "\<And>v idx. idx < length v \<Longrightarrow> step v idx ! idx = g idx (v ! idx)"
    and i: "i < length w"
  shows "foldl step w [0..<n] ! i = (if i < n then g i (w ! i) else w ! i)"
proof (induction n)
  case 0
  show ?case by simp
next
  case (Suc n)
  let ?v = "foldl step w [0..<n]"
  have lv: "length ?v = length w" by (rule foldl_upt_length) (rule len)
  show ?case
  proof (cases "i = n")
    case True
    with Suc i lv show ?thesis by (simp add: self)
  next
    case False
    with Suc show ?thesis by (auto simp: other)
  qed
qed

lemma merge_step_masked_length:
  "length (merge_step_masked cmp str mv accum outp t w idx) = length w"
  by (simp add: merge_step_masked_def mergeSetElement_dense_def setElement_dense_def
        boolRemoveElement_dense_def split: AccumT.splits option.splits)

lemma merge_step_masked_other:
  "j \<noteq> idx \<Longrightarrow> merge_step_masked cmp str mv accum outp t w idx ! j = w ! j"
  by (simp add: merge_step_masked_def mergeSetElement_dense_def setElement_dense_def
        boolRemoveElement_dense_def split: AccumT.splits option.splits)

lemma merge_step_masked_self:
  "idx < length w \<Longrightarrow>
     merge_step_masked cmp str mv accum outp t w idx ! idx
       = merge_slot cmp str mv accum outp t idx (w ! idx)"
  by (auto simp: merge_step_masked_def merge_slot_def mergeSetElement_dense_def
        setElement_dense_def boolRemoveElement_dense_def boolExtractElement_dense_def
        split: AccumT.splits option.splits)

lemma merge_dense_masked_length:
  "get_inner_mask msk = Some mv \<Longrightarrow> length (merge_dense msk accum outp t w) = length w"
  by (simp add: merge_dense_def foldl_upt_length merge_step_masked_length)

lemma merge_dense_masked_slot:
  assumes "get_inner_mask msk = Some mv" "i < length w"
  shows "merge_dense msk accum outp t w ! i
           = merge_slot (mask_comp msk) (mask_strc msk) mv accum outp t i (w ! i)"
proof -
  have "foldl (merge_step_masked (mask_comp msk) (mask_strc msk) mv accum outp t) w
          [0..<length w] ! i
        = (if i < length w
           then merge_slot (mask_comp msk) (mask_strc msk) mv accum outp t i (w ! i)
           else w ! i)"
    by (rule foldl_upt_slot)
       (simp_all add: merge_step_masked_length merge_step_masked_other
          merge_step_masked_self assms(2))
  with assms show ?thesis by (simp add: merge_dense_def)
qed

lemma remove_outside_mask_length:
  "length (remove_outside_mask cmp str mv w) = length w"
  by (simp add: remove_outside_mask_def foldl_upt_length boolRemoveElement_dense_def)

lemma remove_outside_mask_slot:
  assumes "i < length w"
  shows "remove_outside_mask cmp str mv w ! i
           = (if remove_flag cmp str mv i then None else w ! i)"
proof -
  have "foldl (\<lambda>w' idx. if remove_flag cmp str mv idx
                         then boolRemoveElement_dense idx w' else w') w [0..<length w] ! i
        = (if i < length w
           then (\<lambda>idx old. if remove_flag cmp str mv idx then None else old) i (w ! i)
           else w ! i)"
    by (rule foldl_upt_slot) (simp_all add: boolRemoveElement_dense_def assms)
  with assms show ?thesis by (simp add: remove_outside_mask_def)
qed

lemma prepare_dense_length:
  "length (prepare_dense w msk accum outp) = length w"
  by (simp add: prepare_dense_def clear_dense_def remove_outside_mask_length
        split: AccumT.splits option.splits)

lemma prepare_dense_masked_slot:
  assumes "get_inner_mask msk = Some mv" "i < length w"
  shows "prepare_dense w msk accum outp ! i
           = (if outp = REPLACE \<and>
                 (accum = NoAccumulate \<or> remove_flag (mask_comp msk) (mask_strc msk) mv i)
              then None else w ! i)"
  using assms
  by (simp add: prepare_dense_def clear_dense_def remove_outside_mask_slot
        split: AccumT.splits)

text \<open>With a mask and a non-empty product, each slot of the result of the dense kernel.\<close>

lemma vxm_dense_masked_slot:
  assumes "get_inner_mask msk = Some mv" "i < length w"
    and "0 < nvals_matrix A" "0 < nvals_dense u"
  shows "vxm_dense w msk accum op u A outp ! i
           = merge_slot (mask_comp msk) (mask_strc msk) mv accum outp
               (scatter_dense msk op u A (replicate (length w) None)) i
               (prepare_dense w msk accum outp ! i)"
  using assms
  by (simp add: vxm_dense_def Let_def prepare_dense_length merge_dense_masked_slot)

lemma vxm_dense_masked_length:
  "get_inner_mask msk = Some mv \<Longrightarrow> length (vxm_dense w msk accum op u A outp) = length w"
  by (simp add: vxm_dense_def Let_def prepare_dense_length merge_dense_masked_length)

subsection \<open>The sparse kernel, index by index\<close>

lemma lookup_append_sparse:
  "lookup_sparse (append_sparse j x v) i
     = (case lookup_sparse v i of Some y \<Rightarrow> Some y | None \<Rightarrow> if i = j then Some x else None)"
  by (simp add: lookup_sparse_def append_sparse_def map_add_def split: option.splits)

lemma map_of_replace:
  "map_of (map (\<lambda>e. if fst e = j then (j, x) else e) es) i
     = (if i = j \<and> map_of es i \<noteq> None then Some x else map_of es i)"
  by (induction es) auto

lemma lookup_replace_sparse:
  "lookup_sparse (replace_sparse j x v) i
     = (if i = j \<and> lookup_sparse v i \<noteq> None then Some x else lookup_sparse v i)"
  by (auto simp: lookup_sparse_def replace_sparse_def map_of_replace)

lemma lookup_mergeSetElement_sparse:
  "lookup_sparse (mergeSetElement_sparse j x f v) i
     = (if i = j
        then Some (case lookup_sparse v j of None \<Rightarrow> x | Some existing \<Rightarrow> f existing x)
        else lookup_sparse v i)"
  by (auto simp: mergeSetElement_sparse_def lookup_append_sparse lookup_replace_sparse
        split: option.splits)

lemma lookup_setUnsorted: "lookup_sparse (setUnsorted v) i = lookup_sparse v i"
  by (simp add: lookup_sparse_def setUnsorted_def)

lemma map_fst_replace:
  "map fst (map (\<lambda>e. if fst e = j then (j, x) else e) es) = map fst es"
  by (induction es) auto

lemma indices_replace_sparse:
  "map fst (sv_entries (replace_sparse j x v)) = map fst (sv_entries v)"
  by (simp add: replace_sparse_def map_fst_replace del: map_map)

lemma indices_mergeSetElement_sparse:
  "set (map fst (sv_entries (mergeSetElement_sparse j x f v)))
     = insert j (set (map fst (sv_entries v)))"
proof (cases "lookup_sparse v j")
  case None
  then show ?thesis by (simp add: mergeSetElement_sparse_def append_sparse_def)
next
  case (Some y)
  then have "j \<in> set (map fst (sv_entries v))"
    by (metis lookup_sparse_def map_of_eq_None_iff option.distinct(1) set_map)
  with Some show ?thesis
    by (auto simp: mergeSetElement_sparse_def indices_replace_sparse simp del: set_map)
qed

lemma distinct_mergeSetElement_sparse:
  assumes "distinct (map fst (sv_entries v))"
  shows "distinct (map fst (sv_entries (mergeSetElement_sparse j x f v)))"
proof (cases "lookup_sparse v j")
  case None
  then have "j \<notin> fst ` set (sv_entries v)"
    by (simp add: lookup_sparse_def map_of_eq_None_iff)
  with assms None show ?thesis by (simp add: mergeSetElement_sparse_def append_sparse_def)
next
  case (Some y)
  with assms show ?thesis by (simp add: mergeSetElement_sparse_def indices_replace_sparse)
qed

lemma foldl_invariant:
  assumes "P a" and "\<And>b x. P b \<Longrightarrow> P (f b x)"
  shows "P (foldl f a xs)"
  using assms(1) by (induction xs arbitrary: a) (simp_all add: assms(2))

lemma temp_ok_scatter_entry:
  "temp_ok msk t \<Longrightarrow> temp_ok msk (scatter_entry_sparse msk op uw t e)"
  by (cases e)
     (auto simp: temp_ok_def scatter_entry_sparse_def distinct_mergeSetElement_sparse
        list_all_iff indices_mergeSetElement_sparse simp del: set_map)

lemma temp_ok_scatter:
  "temp_ok msk (scatter_sparse msk op u A (new_sparse n))"
  unfolding scatter_sparse_def
proof (rule foldl_invariant)
  show "temp_ok msk (new_sparse n)" by (simp add: temp_ok_def new_sparse_def)
next
  fix b :: "'b GKCSparseVector" and x :: "nat \<times> 'b"
  assume b: "temp_ok msk b"
  obtain ui uw where x: "x = (ui, uw)" by (cases x)
  have "temp_ok msk (foldl (scatter_entry_sparse msk op uw) b (matrix_row A ui))"
    by (rule foldl_invariant) (simp_all add: b temp_ok_scatter_entry)
  then show "temp_ok msk (case x of (ui, uw) \<Rightarrow>
               foldl (scatter_entry_sparse msk op uw) b (matrix_row A ui))"
    by (simp add: x)
qed

lemma foldl_mergeSetElement_lookup:
  "distinct (map fst es) \<Longrightarrow>
     lookup_sparse (foldl (\<lambda>w' te. case te of (j, x) \<Rightarrow> mergeSetElement_sparse j x f w') w es) i
       = (case map_of es i of
            Some x \<Rightarrow> Some (case lookup_sparse w i of None \<Rightarrow> x | Some existing \<Rightarrow> f existing x)
          | None \<Rightarrow> lookup_sparse w i)"
proof (induction es arbitrary: w)
  case Nil
  show ?case by simp
next
  case (Cons e es)
  obtain j x where e: "e = (j, x)" by (cases e)
  from Cons.prems e have d: "distinct (map fst es)" and nj: "j \<notin> fst ` set es" by auto
  from nj have none: "map_of es j = None" by (simp add: map_of_eq_None_iff)
  show ?case
    using Cons.IH[OF d, of "mergeSetElement_sparse j x f w"] none
    by (auto simp: e lookup_mergeSetElement_sparse split: option.splits)
qed

subsection \<open>The concrete scenario\<close>

text \<open>
  C4. For \<open>u = {0: 1, 2: 3}\<close> of size 3, \<open>A\<close> with row 0 = \<open>{(1, 5)}\<close>, row 1 empty and
  row 2 = \<open>{(1, 2), (2, 4)}\<close>, the arithmetic semiring, no mask, no accumulator, REPLACE
  and \<open>w\<close> empty of size 3, the kernel leaves \<open>w = {1: 11, 2: 12}\<close>: the dense kernel in
  the first equation, the sparse kernel in the second.
\<close>

theorem C4_concrete_scenario:
  "vxm_dense [None, None, None] NoMask NoAccumulate ArithmeticSemiring
     [Some 1, None, Some 3] [[(1, 5)], [], [(1, 2), (2, 4)]] REPLACE
   = [None, Some 11, Some 12]
   \<and> sv_entries
       (vxm_sparse (new_sparse 3) (None :: bool GKCSparseVector option) NoAccumulate
          ArithmeticSemiring \<lparr>sv_size = 3, sv_entries = [(0, 1), (2, 3)], sv_unsorted = False\<rparr>
          [[(1, 5)], [], [(1, 2), (2, 4)]] REPLACE)
     = [(1, 11), (2, 12)]"
  by code_simp

subsection \<open>The unsorted flag\<close>

text \<open>
  C10. After every call of the sparse kernel the unsorted flag of \<open>w\<close> is set, whatever
  the arguments: also when \<open>A\<close> or \<open>u\<close> has no entry and nothing was written to \<open>w\<close>.
\<close>

theorem C10_unsorted_flag_always_set:
  "sv_unsorted (vxm_sparse w msk accum op u A outp)"
  by (simp add: vxm_sparse_def setUnsorted_def Let_def)

subsection \<open>An empty product\<close>

text \<open>
  When \<open>A\<close> or \<open>u\<close> has no entry the dense kernel returns \<open>w\<close> as it was, for every mask,
  accumulator and output control: the clearing of lines 228-239 is inside the test of
  line 225.
\<close>

lemma vxm_dense_empty_product:
  "nvals_matrix A = 0 \<or> nvals_dense u = 0 \<Longrightarrow> vxm_dense w msk accum op u A outp = w"
  by (auto simp: vxm_dense_def)

text \<open>The sparse kernel prepares \<open>w\<close> before its test of line 504.\<close>

lemma vxm_sparse_empty_product:
  "nvals_matrix A = 0 \<or> nvals_sparse u = 0 \<Longrightarrow>
     vxm_sparse w msk accum op u A outp = setUnsorted (prepare_sparse w msk accum outp)"
  by (auto simp: vxm_sparse_def Let_def)

lemma vxm_sparse_empty_product_clears:
  "nvals_matrix A = 0 \<or> nvals_sparse u = 0 \<Longrightarrow>
     sv_entries (vxm_sparse w None NoAccumulate op u A outp) = []"
  by (auto simp: vxm_sparse_def Let_def prepare_sparse_def clear_sparse_def setUnsorted_def)

text \<open>
  C1. With \<open>A.nvals() = 0\<close>, no mask, no accumulator and REPLACE, a non-empty \<open>w\<close> should
  become empty. The dense kernel leaves \<open>w = {0: 7}\<close> as it is (first equation); the sparse
  kernel, on the same input, empties it (second equation).
\<close>

theorem C1_dense_empty_product_keeps_w:
  "vxm_dense [Some 7, None] NoMask NoAccumulate ArithmeticSemiring
     [Some 1, None] [[], []] REPLACE
   = [Some 7, None]
   \<and> sv_entries
       (vxm_sparse \<lparr>sv_size = 2, sv_entries = [(0, 7)], sv_unsorted = False\<rparr>
          (None :: bool GKCSparseVector option) NoAccumulate ArithmeticSemiring
          \<lparr>sv_size = 2, sv_entries = [(0, 1)], sv_unsorted = False\<rparr> [[], []] REPLACE)
     = []"
  by code_simp

subsection \<open>The mask test\<close>

text \<open>The flags of the four mask views, as the dense kernel computes them.\<close>

lemma mask_flags:
  "mask_comp (Vector m) = False" "mask_strc (Vector m) = False"
  "mask_comp (VectorStructureView m) = False" "mask_strc (VectorStructureView m) = True"
  "mask_comp (VectorComplementView m) = True" "mask_strc (VectorComplementView m) = False"
  "mask_comp (VectorStructuralComplementView m) = True"
  "mask_strc (VectorStructuralComplementView m) = True"
  by (simp_all add: mask_comp_def mask_strc_def)

text \<open>
  The dense kernel consults the mask at three places: in the scatter loop (line 310), in
  the merge loop (line 382) and in the removal loop under REPLACE (lines 250-264). All
  three agree with the formula of section 4.3.
\<close>

lemma mask_test_is_passes_spec:
  "mask_test cmp str mask_vec i = passes_spec cmp str (boolExtractElement_dense mask_vec i)"
  by (auto simp: mask_test_def passes_spec_def split: option.splits)

lemma remove_flag_is_not_passes_spec:
  "remove_flag cmp str mask_vec i
     = (\<not> passes_spec cmp str (boolExtractElement_dense mask_vec i))"
  by (auto simp: remove_flag_def passes_spec_def hasElement_dense_def Let_def
           split: option.splits)

text \<open>
  The sparse kernel lets an index pass exactly when the mask stores an entry there (within
  the mask's size), whatever the stored value.
\<close>

lemma densify_mask_length:
  "length (foldl (\<lambda>mask_vec i. mask_vec[i := True]) mv is) = length mv"
  by (induction "is" arbitrary: mv) simp_all

lemma densify_mask_nth:
  "j < length mv \<Longrightarrow>
     foldl (\<lambda>mask_vec i. mask_vec[i := True]) mv is ! j = (mv ! j \<or> j \<in> set is)"
proof (induction "is" arbitrary: mv)
  case Nil
  then show ?case by simp
next
  case (Cons a "is")
  from Cons.prems have "mv[a := True] ! j = (j = a \<or> mv ! j)"
    by (cases "j = a") simp_all
  with Cons.IH[of "mv[a := True]"] Cons.prems show ?case by auto
qed

lemma mask_allows_is_stored:
  "mask_allows (Some m) (mask_vec_of (Some m)) i
     = (i < sv_size m \<and> i \<in> fst ` set (sv_entries m))"
  by (cases "i < sv_size m")
     (simp_all add: mask_allows_def mask_vec_of_def densify_mask_def densify_mask_length
        densify_mask_nth)

text \<open>
  C2. At every place where a kernel consults the mask, the test should equal
  \<open>complement XOR (present AND (structure-only OR stored value))\<close>. For the direct value
  mask \<open>{1: false}\<close> of size 3 the sparse kernel lets index 1 pass, and the formula does
  not.
\<close>

theorem C2_sparse_mask_ignores_stored_value:
  "mask_allows (Some \<lparr>sv_size = 3, sv_entries = [(1, False)], sv_unsorted = False\<rparr>)
     (mask_vec_of (Some \<lparr>sv_size = 3, sv_entries = [(1, False)], sv_unsorted = False\<rparr>)) 1
   \<and> \<not> passes_spec False False
         (lookup_sparse \<lparr>sv_size = 3, sv_entries = [(1, False)], sv_unsorted = False\<rparr> 1)"
  by code_simp

subsection \<open>The accumulator without a mask\<close>

text \<open>
  Without a mask the dense kernel never applies the accumulator: the branch of lines
  357-369 assigns the temporary to \<open>w\<close>.
\<close>

lemma vxm_dense_no_mask_ignores_accum:
  "vxm_dense w NoMask (Accum f) op u A outp = vxm_dense w NoMask (Accum g) op u A outp"
  by (simp add: vxm_dense_def prepare_dense_def merge_dense_def)

text \<open>
  With a mask and a non-empty product the dense kernel does apply the accumulator: inside
  the mask a value of the temporary is combined with the old value of \<open>w\<close>, or stored
  when there is none; outside the mask the slot is removed under REPLACE and kept under
  MERGE.
\<close>

lemma vxm_dense_accum_masked_slot:
  assumes "get_inner_mask msk = Some mv" "i < length w"
    and "0 < nvals_matrix A" "0 < nvals_dense u"
  shows "vxm_dense w msk (Accum f) op u A outp ! i
           = (if passes_spec (mask_comp msk) (mask_strc msk) (boolExtractElement_dense mv i)
              then (case boolExtractElement_dense
                           (scatter_dense msk op u A (replicate (length w) None)) i of
                      Some tv \<Rightarrow> Some (case w ! i of None \<Rightarrow> tv | Some existing \<Rightarrow> f existing tv)
                    | None \<Rightarrow> w ! i)
              else if outp = REPLACE then None else w ! i)"
  using assms
  by (simp add: vxm_dense_masked_slot prepare_dense_masked_slot merge_slot_def
        mask_test_is_passes_spec remove_flag_is_not_passes_spec)

text \<open>
  The sparse kernel applies the accumulator with and without a mask: where the temporary
  has a value it is combined with the value \<open>w\<close> has after the preparation of lines
  472-502, or stored when there is none.
\<close>

lemma vxm_sparse_accum_lookup:
  assumes "0 < nvals_matrix A" "0 < nvals_sparse u"
  shows "lookup_sparse (vxm_sparse w msk (Accum f) op u A outp) i
           = (case lookup_sparse (scatter_sparse msk op u A (new_sparse (sv_size w))) i of
                Some tv \<Rightarrow>
                  Some (case lookup_sparse (prepare_sparse w msk (Accum f) outp) i of
                          None \<Rightarrow> tv
                        | Some existing \<Rightarrow> f existing tv)
              | None \<Rightarrow> lookup_sparse (prepare_sparse w msk (Accum f) outp) i)"
proof -
  let ?t = "scatter_sparse msk op u A (new_sparse (sv_size w))"
  have "distinct (map fst (sv_entries ?t))"
    using temp_ok_scatter[of msk op u A "sv_size w"] by (simp add: temp_ok_def)
  from foldl_mergeSetElement_lookup[OF this] assms show ?thesis
    by (simp add: vxm_sparse_def Let_def merge_sparse_def lookup_setUnsorted
          lookup_sparse_def[of ?t])
qed

text \<open>
  C3. With an accumulator, where the temporary has a value and \<open>w\<close> had one, the final
  \<open>w[i]\<close> should be \<open>accum(old w[i], temp[i])\<close>. For \<open>w = {1: 100}\<close>, \<open>u = {0: 1}\<close>,
  row 0 of \<open>A\<close> = \<open>{(1, 5)}\<close>, the accumulator \<open>+\<close> and no mask, the dense kernel leaves
  \<open>w[1] = 5\<close> (first equation); the sparse kernel leaves 105 (second equation).
\<close>

theorem C3_dense_no_mask_accum_overwrites:
  "vxm_dense [None, Some 100, None] NoMask (Accum (+)) ArithmeticSemiring
     [Some 1, None, None] [[(1, 5)], [], []] MERGE
   = [None, Some 5, None]
   \<and> sv_entries
       (vxm_sparse \<lparr>sv_size = 3, sv_entries = [(1, 100)], sv_unsorted = False\<rparr>
          (None :: bool GKCSparseVector option) (Accum (+)) ArithmeticSemiring
          \<lparr>sv_size = 3, sv_entries = [(0, 1)], sv_unsorted = False\<rparr>
          [[(1, 5)], [], []] MERGE)
     = [(1, 105)]"
  by code_simp

subsection \<open>No accumulator, a mask and MERGE\<close>

text \<open>
  The dense kernel with a non-empty product: inside the mask the slot takes the content of
  the temporary, present or absent; outside the mask it is unchanged.
\<close>

lemma vxm_dense_no_accum_merge_slot:
  assumes "get_inner_mask msk = Some mv" "i < length w"
    and "0 < nvals_matrix A" "0 < nvals_dense u"
  shows "vxm_dense w msk NoAccumulate op u A MERGE ! i
           = (if passes_spec (mask_comp msk) (mask_strc msk) (boolExtractElement_dense mv i)
              then boolExtractElement_dense
                     (scatter_dense msk op u A (replicate (length w) None)) i
              else w ! i)"
  using assms
  by (simp add: vxm_dense_masked_slot prepare_dense_masked_slot merge_slot_def
        mask_test_is_passes_spec)

text \<open>
  C5. Without an accumulator, with a mask and MERGE, an entry of \<open>w\<close> inside the mask
  should be removed when the temporary has no value there. For \<open>w = {1: 9}\<close>, the mask
  \<open>{1: true}\<close>, \<open>u = {0: 1}\<close> and row 0 of \<open>A\<close> = \<open>{(2, 5)}\<close> the temporary is empty; the
  sparse kernel keeps \<open>w[1] = 9\<close> (first equation), the dense kernel removes it (second
  equation).
\<close>

theorem C5_sparse_merge_keeps_entry_inside_mask:
  "sv_entries
     (vxm_sparse \<lparr>sv_size = 3, sv_entries = [(1, 9)], sv_unsorted = False\<rparr>
        (Some \<lparr>sv_size = 3, sv_entries = [(1, True)], sv_unsorted = False\<rparr>)
        NoAccumulate ArithmeticSemiring
        \<lparr>sv_size = 3, sv_entries = [(0, 1)], sv_unsorted = False\<rparr>
        [[(2, 5)], [], []] MERGE)
   = [(1, 9)]
   \<and> vxm_dense [None, Some 9, None] (Vector [None, Some True, None]) NoAccumulate
       ArithmeticSemiring [Some 1, None, None] [[(2, 5)], [], []] MERGE
     = [None, None, None]"
  by code_simp

subsection \<open>An accumulator, a mask and MERGE\<close>

text \<open>
  The dense kernel leaves every slot outside the mask as it was, for every mask view and
  also when the product is empty.
\<close>

lemma vxm_dense_accum_merge_frame:
  assumes "get_inner_mask msk = Some mv" "i < length w"
    and "\<not> passes_spec (mask_comp msk) (mask_strc msk) (boolExtractElement_dense mv i)"
  shows "vxm_dense w msk (Accum f) op u A MERGE ! i = w ! i"
proof (cases "0 < nvals_matrix A \<and> 0 < nvals_dense u")
  case True
  with assms show ?thesis
    by (simp add: vxm_dense_masked_slot prepare_dense_masked_slot merge_slot_def
          mask_test_is_passes_spec)
next
  case False
  then have "nvals_matrix A = 0 \<or> nvals_dense u = 0" by auto
  then show ?thesis by (simp add: vxm_dense_empty_product)
qed

text \<open>
  The sparse kernel leaves \<open>w\<close> as it was at every index where the mask stores no entry;
  an index where the mask stores \<open>false\<close> is not among them.
\<close>

lemma vxm_sparse_accum_merge_frame:
  assumes "\<not> mask_allows (Some m) (mask_vec_of (Some m)) i"
  shows "lookup_sparse (vxm_sparse w (Some m) (Accum f) op u A MERGE) i = lookup_sparse w i"
proof (cases "0 < nvals_matrix A \<and> 0 < nvals_sparse u")
  case True
  let ?t = "scatter_sparse (Some m) op u A (new_sparse (sv_size w))"
  have "list_all (mask_allows (Some m) (mask_vec_of (Some m))) (map fst (sv_entries ?t))"
    using temp_ok_scatter[of "Some m" op u A "sv_size w"] by (simp add: temp_ok_def)
  with assms have "i \<notin> fst ` set (sv_entries ?t)"
    by (auto simp: list_all_iff)
  then have "lookup_sparse ?t i = None"
    by (simp add: lookup_sparse_def map_of_eq_None_iff)
  with True show ?thesis
    by (simp add: vxm_sparse_accum_lookup prepare_sparse_def)
next
  case False
  then have "nvals_matrix A = 0 \<or> nvals_sparse u = 0" by auto
  then show ?thesis
    by (simp add: vxm_sparse_empty_product lookup_setUnsorted prepare_sparse_def)
qed

text \<open>
  C8. With an accumulator, a mask and MERGE, \<open>w\<close> should be unchanged at every index
  outside the mask. For \<open>w = {1: 100}\<close>, the direct value mask \<open>{1: false}\<close>, \<open>u = {0: 1}\<close>,
  row 0 of \<open>A\<close> = \<open>{(1, 5)}\<close> and the accumulator \<open>+\<close>, index 1 is outside the mask; the
  sparse kernel leaves \<open>w[1] = 105\<close> (first equation), the dense kernel leaves 100 (second
  equation).
\<close>

theorem C8_sparse_changes_index_outside_mask:
  "sv_entries
     (vxm_sparse \<lparr>sv_size = 3, sv_entries = [(1, 100)], sv_unsorted = False\<rparr>
        (Some \<lparr>sv_size = 3, sv_entries = [(1, False)], sv_unsorted = False\<rparr>)
        (Accum (+)) ArithmeticSemiring
        \<lparr>sv_size = 3, sv_entries = [(0, 1)], sv_unsorted = False\<rparr>
        [[(1, 5)], [], []] MERGE)
   = [(1, 105)]
   \<and> vxm_dense [None, Some 100, None] (Vector [None, Some False, None]) (Accum (+))
       ArithmeticSemiring [Some 1, None, None] [[(1, 5)], [], []] MERGE
     = [None, Some 100, None]"
  by code_simp

subsection \<open>The iterator\<close>

text \<open>
  On a matrix with one row \<^verbatim>\<open>fast_forward\<close> never moves, and the traversal yields the
  entries of the row, each once and in order, and reaches the end iterator.
\<close>

lemma traverse_single_row:
  "k \<le> length row \<Longrightarrow>
     traverse [row] \<lparr>acc_row = 0, acc_col = InnerIt 0 k\<rparr>
                    \<lparr>acc_row = 0, acc_col = InnerIt 0 (length row)\<rparr>
       = (map (\<lambda>e. (0, fst e, snd e)) (drop k row), None)"
proof (induction "length row - k" arbitrary: k)
  case 0
  then show ?case by simp
next
  case (Suc n)
  then have k: "k < length row" by simp
  then have d: "drop k row = row ! k # drop (Suc k) row" by (simp add: Cons_nth_drop_Suc)
  from Suc have "n = length row - Suc k" "Suc k \<le> length row" by simp_all
  from Suc.hyps(1)[OF this] k show ?case
    by (subst traverse.simps)
       (simp add: d dereference_def increment_def dereferenceable_def next_inner_def
          split: prod.splits)
qed

lemma traverse_all_single_row:
  "traverse_all [row] = (map (\<lambda>e. (0, fst e, snd e)) row, None)"
  using traverse_single_row[of 0 row]
  by (simp add: traverse_all_def begin_iterator_def end_iterator_def
        adjacency_list_view_accessor_def row_begin_def row_end_def)

text \<open>
  C7. After construction and any number of advances the intra-row position should be a
  dereferenceable position of the current row, or the iterator should equal the end
  iterator. For the matrix with rows \<open>{(0, 1)}\<close> and \<open>{(1, 2)}\<close> one advance from the first
  iterator gives row 1 with the position still at the end of row 0: \<^verbatim>\<open>fast_forward\<close> does
  not reset \<^verbatim>\<open>col_\<close> when it enters the last row (line 67). That state is neither.
\<close>

theorem C7_advance_leaves_position_of_previous_row:
  "begin_iterator [[(0, 1 :: int)], [(1, 2)]] = Inr \<lparr>acc_row = 0, acc_col = InnerIt 0 0\<rparr>
   \<and> increment [[(0, 1 :: int)], [(1, 2)]] \<lparr>acc_row = 0, acc_col = InnerIt 0 0\<rparr>
       = Inr \<lparr>acc_row = 1, acc_col = InnerIt 0 1\<rparr>
   \<and> \<not> in_current_row [[(0, 1 :: int)], [(1, 2)]] \<lparr>acc_row = 1, acc_col = InnerIt 0 1\<rparr>
   \<and> end_iterator [[(0, 1 :: int)], [(1, 2)]] = Inr \<lparr>acc_row = 1, acc_col = InnerIt 1 1\<rparr>"
  by code_simp

text \<open>
  C6. A full traversal should yield every stored entry once. For the same matrix the
  traversal yields \<open>(0, 0, 1)\<close> and then has to dereference the end of row 0: the entry
  \<open>(1, 1, 2)\<close> of the last row is never yielded and the end iterator is never reached.
\<close>

theorem C6_traversal_misses_last_row:
  "traverse_all [[(0, 1 :: int)], [(1, 2)]] = ([(0, 0, 1)], Some NotDereferenceable)"
  by code_simp

end
